theory Spec2Isabelle
  imports Main
begin

section \<open>Strings as the connectors use them\<close>

text \<open>
  Statements are strings of code units below 256. \<open>trim\<close> strips the white space and line
  terminators of that range (tab, line feed, vertical tab, form feed, carriage return,
  space, no-break space) from both ends. The connectors compare the upper-cased statement
  with ASCII patterns only, so \<open>toUpperCase\<close> is given on the letters \<open>a\<close> to \<open>z\<close>; the
  other code units of the range are left as they are, since the upper-case image of none
  of them can take part in a match with one of those patterns.
\<close>

definition isWhiteSpace :: "char \<Rightarrow> bool" where
  "isWhiteSpace c = (c \<in> set [CHR 0x09, CHR 0x0A, CHR 0x0B, CHR 0x0C, CHR 0x0D, CHR 0x20, CHR 0xA0])"

definition trim :: "string \<Rightarrow> string" where
  "trim s = rev (dropWhile isWhiteSpace (rev (dropWhile isWhiteSpace s)))"

definition toUpperChar :: "char \<Rightarrow> char" where
  "toUpperChar c =
     (case map_of (zip ''abcdefghijklmnopqrstuvwxyz'' ''ABCDEFGHIJKLMNOPQRSTUVWXYZ'') c of
        Some u \<Rightarrow> u
      | None \<Rightarrow> c)"

definition toUpperCase :: "string \<Rightarrow> string" where
  "toUpperCase s = map toUpperChar s"

definition startsWith :: "string \<Rightarrow> string \<Rightarrow> bool" where
  "startsWith s p = (take (length p) s = p)"

fun str_includes :: "string \<Rightarrow> string \<Rightarrow> bool" where
  "str_includes [] p = (p = [])"
| "str_includes (c # cs) p = (startsWith (c # cs) p \<or> str_includes cs p)"

text \<open>
  The rendering of a row bound inside a template literal. Row bounds are integers up to
  \<open>2 ^ 53\<close>: there the arithmetic of the source on its floating-point numbers is exact
  and a number prints as its plain decimal digits. Beyond that the source rounds
  \<open>maxRows + 1\<close>, and from \<open>10 ^ 21\<close> on it prints an exponent.
\<close>

definition digitChar :: "nat \<Rightarrow> char" where
  "digitChar d = ''0123456789'' ! d"

fun numberToString :: "nat \<Rightarrow> string" where
  "numberToString n =
     (if n < 10 then [digitChar n] else numberToString (n div 10) @ [digitChar (n mod 10)])"

declare numberToString.simps [simp del]

section \<open>Errors and results\<close>

datatype error =
    QueryError string string string
  | ConnectionError string string
  | KerberosError string
  | Error string

record 'r formatRows_result =
  rows :: "'r list"
  truncated :: bool

record 'r queryResult = "'r formatRows_result" +
  columns :: "string list"
  rowCount :: nat

section \<open>BaseConnector: write classification, row limiting, truncation\<close>

definition writeKeywords :: "string list" where
  "writeKeywords =
     [''INSERT'', ''UPDATE'', ''DELETE'', ''DROP'', ''CREATE'', ''ALTER'',
      ''TRUNCATE'', ''GRANT'', ''REVOKE'', ''MERGE'', ''UPSERT'', ''REPLACE'']"

text \<open>The \<open>for\<close> loop over the keywords, returning at the first match.\<close>

fun matchKeyword :: "string \<Rightarrow> string list \<Rightarrow> bool" where
  "matchKeyword normalized [] = False"
| "matchKeyword normalized (keyword # rest) =
     (if startsWith normalized keyword then True else matchKeyword normalized rest)"

definition isWriteQuery :: "string \<Rightarrow> bool" where
  "isWriteQuery sql = (let normalized = toUpperCase (trim sql) in matchKeyword normalized writeKeywords)"

definition wrapWithLimit :: "string \<Rightarrow> nat \<Rightarrow> string" where
  "wrapWithLimit sql maxRows =
     (let normalized = toUpperCase (trim sql) in
      if str_includes normalized '' LIMIT '' \<or> str_includes normalized '' TOP '' \<or>
         str_includes normalized '' FETCH ''
      then sql
      else if \<not> startsWith normalized ''SELECT'' then sql
      else trim sql @ '' LIMIT '' @ numberToString maxRows)"

text \<open>
  The SQL Server override. \<open>replace(/^SELECT/i, r)\<close> looks at the start of the statement as
  given, not of the trimmed one.
\<close>

definition replaceLeadingSelect :: "string \<Rightarrow> string \<Rightarrow> string" where
  "replaceLeadingSelect s r =
     (if toUpperCase (take 6 s) = ''SELECT'' then r @ drop 6 s else s)"

definition wrapWithLimit_sqlserver :: "string \<Rightarrow> nat \<Rightarrow> string" where
  "wrapWithLimit_sqlserver sqlQuery maxRows =
     (let normalized = toUpperCase (trim sqlQuery) in
      if str_includes normalized '' TOP '' \<or> str_includes normalized '' OFFSET '' \<or>
         \<not> startsWith normalized ''SELECT''
      then sqlQuery
      else replaceLeadingSelect sqlQuery (''SELECT TOP '' @ numberToString maxRows))"

definition formatRows :: "'r list \<Rightarrow> nat \<Rightarrow> 'r formatRows_result" where
  "formatRows fetched maxRows =
     (let isTruncated = length fetched > maxRows;
          limitedRows = (if isTruncated then take maxRows fetched else fetched)
      in \<lparr> rows = limitedRows, truncated = isTruncated \<rparr>)"


section \<open>Configuration, options and the connector state\<close>

record sourceConfig =
  cfg_id :: string
  cfg_type :: string
  cfg_readonly :: "bool option"
  auth_mechanism :: string
  keytab :: "string option"
  user_principal :: "string option"

record settings =
  set_readonly :: bool
  max_rows :: nat
  query_timeout :: "nat option"
  connection_timeout :: "nat option"

record parsedConfig =
  settings :: settings
  sources :: "(string \<times> sourceConfig) list"

text \<open>\<open>Partial<ConnectorOptions>\<close>: every field may be absent.\<close>

record partialOptions =
  p_readonly :: "bool option"
  p_maxRows :: "nat option"
  p_queryTimeout :: "nat option"
  p_connectionTimeout :: "nat option"

record connectorOptions =
  readonly :: bool
  maxRows :: nat
  queryTimeout :: "nat option"
  connectionTimeout :: "nat option"

type_synonym param = string

record executeOptions =
  eo_params :: "param list option"
  eo_maxRows :: "nat option"
  eo_timeout :: "nat option"

definition DEFAULT_MAX_ROWS :: nat where
  "DEFAULT_MAX_ROWS = 1000"

definition DEFAULT_QUERY_TIMEOUT :: nat where
  "DEFAULT_QUERY_TIMEOUT = 30000"

text \<open>The \<open>??\<close> operator: the left operand unless it is absent.\<close>

definition orElse :: "'a option \<Rightarrow> 'a \<Rightarrow> 'a" where
  "orElse x d = (case x of Some v \<Rightarrow> v | None \<Rightarrow> d)"

definition orElseOpt :: "'a option \<Rightarrow> 'a option \<Rightarrow> 'a option" where
  "orElseOpt x y = (case x of Some v \<Rightarrow> Some v | None \<Rightarrow> y)"

text \<open>A string in a condition is truthy when it is present and not empty.\<close>

definition truthy :: "string option \<Rightarrow> bool" where
  "truthy x = (case x of Some v \<Rightarrow> v \<noteq> [] | None \<Rightarrow> False)"

type_synonym handle = nat

record kerberosAuth =
  kerb_keytab :: string
  kerb_principal :: string
  initialized :: bool
  ticketExpiry :: "nat option"
  refreshTimer :: "nat option"

datatype variant =
    PostgresConnector
  | MySqlConnector
  | SqlServerConnector
  | SqliteConnector
  | HiveConnector
  | ImpalaConnector

text \<open>
  One connector object: the fields of \<open>BaseConnector\<close> and the handles the adapters own
  (\<open>pool\<close> is the pool of the pooled adapters and the \<open>db\<close> of the SQLite one; \<open>client\<close>,
  \<open>session\<close> and \<open>kerberosAuth\<close> belong to the Hive family).
\<close>

record connector =
  variant :: variant
  config :: sourceConfig
  options :: connectorOptions
  isConnected :: bool
  isMariaDb :: bool
  pool :: "handle option"
  client :: "handle option"
  session :: "handle option"
  kerberosAuth :: "kerberosAuth option"

definition sourceId :: "connector \<Rightarrow> string" where
  "sourceId c = cfg_id (config c)"

definition dbType :: "connector \<Rightarrow> string" where
  "dbType c =
     (case variant c of
        PostgresConnector \<Rightarrow> ''postgres''
      | MySqlConnector \<Rightarrow> (if isMariaDb c then ''mariadb'' else ''mysql'')
      | SqlServerConnector \<Rightarrow> ''sqlserver''
      | SqliteConnector \<Rightarrow> ''sqlite''
      | HiveConnector \<Rightarrow> ''hive''
      | ImpalaConnector \<Rightarrow> ''impala'')"

text \<open>The constructors: \<open>BaseConnector\<close>'s, with the one field \<open>MySqlConnector\<close> adds.\<close>

definition newConnector :: "variant \<Rightarrow> sourceConfig \<Rightarrow> partialOptions \<Rightarrow> connector" where
  "newConnector v cfg opts =
     \<lparr> variant = v,
       config = cfg,
       options = \<lparr> readonly = orElse (cfg_readonly cfg) (orElse (p_readonly opts) False),
                   maxRows = orElse (p_maxRows opts) DEFAULT_MAX_ROWS,
                   queryTimeout = Some (orElse (p_queryTimeout opts) DEFAULT_QUERY_TIMEOUT),
                   connectionTimeout = p_connectionTimeout opts \<rparr>,
       isConnected = False,
       isMariaDb = (v = MySqlConnector \<and> cfg_type cfg = ''mariadb''),
       pool = None,
       client = None,
       session = None,
       kerberosAuth = None \<rparr>"

section \<open>BaseConnector.execute\<close>

text \<open>
  The template method. The adapter's \<open>executeQuery\<close> is a parameter; it works on a world
  \<open>'w\<close> that stands for everything outside the process, so a call that happens shows in the
  world it returns.
\<close>

definition execute ::
  "(connector \<Rightarrow> string \<Rightarrow> param list option \<Rightarrow> nat \<Rightarrow> nat option \<Rightarrow> 'w \<Rightarrow> (error + 'q) \<times> 'w) \<Rightarrow>
   connector \<Rightarrow> string \<Rightarrow> executeOptions option \<Rightarrow> 'w \<Rightarrow> (error + 'q) \<times> 'w" where
  "execute executeQuery c sql opts w =
     (if \<not> isConnected c
      then (Inl (QueryError (sourceId c) sql ''Not connected to database''), w)
      else if readonly (options c) \<and> isWriteQuery sql
      then (Inl (QueryError (sourceId c) sql
                   ''Write operations are not allowed in read-only mode''), w)
      else
        let effMaxRows = orElse (Option.bind opts eo_maxRows) (maxRows (options c));
            effTimeout = orElseOpt (Option.bind opts eo_timeout) (queryTimeout (options c))
        in executeQuery c sql (Option.bind opts eo_params) effMaxRows effTimeout w)"


section \<open>The world outside: drivers and external commands\<close>

datatype val = Null | Num int | Str string

type_synonym row = "(string \<times> val) list"

record pg_result =
  pg_fields :: "string list option"
  pg_rows :: "row list"
  pg_rowCount :: "nat option"

text \<open>
  What the adapters call in the driver libraries and the operating system. Each operation
  takes the world and returns it with its outcome; a failure carries the message of the
  exception the library throws.
\<close>

record 'w driver =
  newPool :: "sourceConfig \<Rightarrow> connectorOptions \<Rightarrow> 'w \<Rightarrow> (string + handle) \<times> 'w"
  verifyPool :: "handle \<Rightarrow> 'w \<Rightarrow> string option \<times> 'w"
  closePool :: "handle \<Rightarrow> 'w \<Rightarrow> string option \<times> 'w"
  poolQuery :: "handle \<Rightarrow> string \<Rightarrow> param list option \<Rightarrow> 'w \<Rightarrow> (string + pg_result) \<times> 'w"
  dbAll :: "handle \<Rightarrow> string \<Rightarrow> param list option \<Rightarrow> 'w \<Rightarrow> (string + row list) \<times> 'w"
  dbRun :: "handle \<Rightarrow> string \<Rightarrow> param list option \<Rightarrow> 'w \<Rightarrow> (string + nat \<times> int) \<times> 'w"
  importHiveDriver :: "'w \<Rightarrow> bool \<times> 'w"
  newClient :: "'w \<Rightarrow> handle \<times> 'w"
  clientConnect :: "handle \<Rightarrow> sourceConfig \<Rightarrow> 'w \<Rightarrow> string option \<times> 'w"
  openSession :: "handle \<Rightarrow> 'w \<Rightarrow> (string + handle) \<times> 'w"
  closeSession :: "handle \<Rightarrow> 'w \<Rightarrow> string option \<times> 'w"
  closeClient :: "handle \<Rightarrow> 'w \<Rightarrow> string option \<times> 'w"
  existsSync :: "string \<Rightarrow> 'w \<Rightarrow> bool"
  spawnKinit :: "string \<Rightarrow> string \<Rightarrow> 'w \<Rightarrow> string option \<times> 'w"
  spawnKlist :: "'w \<Rightarrow> (string + nat) \<times> 'w"
  spawnKdestroy :: "'w \<Rightarrow> string option \<times> 'w"
  dateNow :: "'w \<Rightarrow> nat"

section \<open>KerberosAuth\<close>

definition newKerberosAuth :: "string \<Rightarrow> string \<Rightarrow> kerberosAuth" where
  "newKerberosAuth kt pr =
     \<lparr> kerb_keytab = kt, kerb_principal = pr, initialized = False,
       ticketExpiry = None, refreshTimer = None \<rparr>"

text \<open>
  \<open>kinit\<close>: the command, and on exit code 0 the expiry read from \<open>klist\<close>; a failing
  \<open>klist\<close> leaves the expiry as it was.
\<close>

definition kinit :: "'w driver \<Rightarrow> kerberosAuth \<Rightarrow> 'w \<Rightarrow> (string + unit) \<times> kerberosAuth \<times> 'w" where
  "kinit drv k w =
     (case spawnKinit drv (kerb_keytab k) (kerb_principal k) w of
        (Some msg, w1) \<Rightarrow> (Inl msg, k, w1)
      | (None, w1) \<Rightarrow>
          (case spawnKlist drv w1 of
             (Inr expiry, w2) \<Rightarrow> (Inr (), k\<lparr>ticketExpiry := Some expiry\<rparr>, w2)
           | (Inl _, w2) \<Rightarrow> (Inr (), k, w2)))"

text \<open>
  The timer is kept as the delay it was armed with, in milliseconds. Subtraction on \<open>nat\<close>
  stops at zero, which is the \<open>Math.max(0, ...)\<close> of the source.
\<close>

definition scheduleRefresh :: "'w driver \<Rightarrow> kerberosAuth \<Rightarrow> 'w \<Rightarrow> kerberosAuth" where
  "scheduleRefresh drv k w =
     (let refreshIn = (case ticketExpiry k of
                         Some expiry \<Rightarrow> expiry - dateNow drv w - 10 * 60 * 1000
                       | None \<Rightarrow> 4 * 60 * 60 * 1000)
      in k\<lparr>refreshTimer := Some refreshIn\<rparr>)"

text \<open>The keytab path is taken as already resolved; the permission check only logs.\<close>

definition initialize :: "'w driver \<Rightarrow> kerberosAuth \<Rightarrow> 'w \<Rightarrow> (error + unit) \<times> kerberosAuth \<times> 'w" where
  "initialize drv k w =
     (if initialized k then (Inr (), k, w)
      else if \<not> existsSync drv (kerb_keytab k) w
      then (Inl (KerberosError (''Keytab file not found: '' @ kerb_keytab k)), k, w)
      else
        (case kinit drv k w of
           (Inl msg, k1, w1) \<Rightarrow>
             (Inl (KerberosError (''Failed to initialize Kerberos: '' @ msg)), k1, w1)
         | (Inr u, k1, w1) \<Rightarrow>
             (Inr (), scheduleRefresh drv (k1\<lparr>initialized := True\<rparr>) w1, w1)))"

text \<open>
  \<open>destroy\<close> catches the failure of \<open>kdestroy\<close> itself, so it has no error result. This
  is a call with no renewal in flight: a \<open>refresh\<close> that is waiting for \<open>kinit\<close> while
  \<open>destroy\<close> runs arms a new timer afterwards.
\<close>

definition destroy :: "'w driver \<Rightarrow> kerberosAuth \<Rightarrow> 'w \<Rightarrow> kerberosAuth \<times> 'w" where
  "destroy drv k w =
     (let k1 = (if refreshTimer k \<noteq> None then k\<lparr>refreshTimer := None\<rparr> else k) in
      case spawnKdestroy drv w of
        (None, w1) \<Rightarrow> (k1\<lparr>initialized := False, ticketExpiry := None\<rparr>, w1)
      | (Some msg, w1) \<Rightarrow> (k1, w1))"

definition isValid :: "kerberosAuth \<Rightarrow> nat \<Rightarrow> bool" where
  "isValid k now =
     (if \<not> initialized k then False
      else case ticketExpiry k of None \<Rightarrow> True | Some expiry \<Rightarrow> now < expiry)"


section \<open>The adapters\<close>

definition orUnknown :: "string \<Rightarrow> string" where
  "orUnknown m = (if m = [] then ''Unknown error'' else m)"

fun message :: "error \<Rightarrow> string" where
  "message (QueryError sid q cause) = ''Query execution failed: '' @ orUnknown cause"
| "message (ConnectionError sid cause) = ''Failed to connect to database: '' @ orUnknown cause"
| "message (KerberosError m) = m"
| "message (Error m) = m"

subsection \<open>connect\<close>

text \<open>
  Postgres, MySQL and SQL Server: create the pool, then verify it (a throwaway checkout, or
  the pool's own \<open>connect\<close>). The pool is assigned before it is verified.
\<close>

definition connect_pool :: "'w driver \<Rightarrow> connector \<Rightarrow> 'w \<Rightarrow> (error + unit) \<times> connector \<times> 'w" where
  "connect_pool drv c w =
     (if isConnected c then (Inr (), c, w)
      else
        (case newPool drv (config c) (options c) w of
           (Inl msg, w1) \<Rightarrow> (Inl (ConnectionError (sourceId c) msg), c, w1)
         | (Inr h, w1) \<Rightarrow>
             (let c1 = c\<lparr>pool := Some h\<rparr> in
              case verifyPool drv h w1 of
                (Some msg, w2) \<Rightarrow> (Inl (ConnectionError (sourceId c) msg), c1, w2)
              | (None, w2) \<Rightarrow> (Inr (), c1\<lparr>isConnected := True\<rparr>, w2))))"

text \<open>SQLite: opening the file is all there is.\<close>

definition connect_sqlite :: "'w driver \<Rightarrow> connector \<Rightarrow> 'w \<Rightarrow> (error + unit) \<times> connector \<times> 'w" where
  "connect_sqlite drv c w =
     (if isConnected c then (Inr (), c, w)
      else
        (case newPool drv (config c) (options c) w of
           (Inl msg, w1) \<Rightarrow> (Inl (ConnectionError (sourceId c) msg), c, w1)
         | (Inr h, w1) \<Rightarrow> (Inr (), c\<lparr>pool := Some h, isConnected := True\<rparr>, w1)))"

text \<open>Hive: the \<open>catch\<close> block destroys the authenticator, if one was made, and rethrows.\<close>

definition hiveConnectFailed ::
  "'w driver \<Rightarrow> connector \<Rightarrow> string \<Rightarrow> 'w \<Rightarrow> (error + unit) \<times> connector \<times> 'w" where
  "hiveConnectFailed drv c cause w =
     (case kerberosAuth c of
        Some k \<Rightarrow>
          (case destroy drv k w of
             (k1, w1) \<Rightarrow> (Inl (ConnectionError (sourceId c) cause), c\<lparr>kerberosAuth := Some k1\<rparr>, w1))
      | None \<Rightarrow> (Inl (ConnectionError (sourceId c) cause), c, w))"

definition hiveKerberosInit ::
  "'w driver \<Rightarrow> connector \<Rightarrow> 'w \<Rightarrow> (error + unit) \<times> connector \<times> 'w" where
  "hiveKerberosInit drv c w =
     (let cfg = config c in
      if auth_mechanism cfg = ''KERBEROS'' \<and> truthy (keytab cfg) \<and> truthy (user_principal cfg)
      then
        (case initialize drv (newKerberosAuth (orElse (keytab cfg) []) (orElse (user_principal cfg) [])) w of
           (r, k, w1) \<Rightarrow> (r, c\<lparr>kerberosAuth := Some k\<rparr>, w1))
      else (Inr (), c, w))"

definition connect_hive :: "'w driver \<Rightarrow> connector \<Rightarrow> 'w \<Rightarrow> (error + unit) \<times> connector \<times> 'w" where
  "connect_hive drv c w =
     (if isConnected c then (Inr (), c, w)
      else
        (case importHiveDriver drv w of
           (False, w0) \<Rightarrow>
             (Inl (Error ''hive-driver package is not installed. Install it with: npm install hive-driver''),
              c, w0)
         | (True, w0) \<Rightarrow>
             (case hiveKerberosInit drv c w0 of
                (Inl e, c1, w1) \<Rightarrow> hiveConnectFailed drv c1 (message e) w1
              | (Inr u, c1, w1) \<Rightarrow>
                  (case newClient drv w1 of
                     (h, w2) \<Rightarrow>
                       (let c2 = c1\<lparr>client := Some h\<rparr> in
                        case clientConnect drv h (config c) w2 of
                          (Some msg, w3) \<Rightarrow> hiveConnectFailed drv c2 msg w3
                        | (None, w3) \<Rightarrow>
                            (case openSession drv h w3 of
                               (Inl msg, w4) \<Rightarrow> hiveConnectFailed drv c2 msg w4
                             | (Inr s, w4) \<Rightarrow>
                                 (Inr (), c2\<lparr>session := Some s, isConnected := True\<rparr>, w4)))))))"

text \<open>
  Modelled from the spec: the source of \<open>ImpalaConnector\<close> (\<open>connectors/impala.ts\<close>) is
  not among the files; the spec says it is of the same transport family as Hive, with
  another default port, so its \<open>connect\<close> and \<open>disconnect\<close> are taken to be Hive's.
\<close>

definition connect :: "'w driver \<Rightarrow> connector \<Rightarrow> 'w \<Rightarrow> (error + unit) \<times> connector \<times> 'w" where
  "connect drv c w =
     (case variant c of
        PostgresConnector \<Rightarrow> connect_pool drv c w
      | MySqlConnector \<Rightarrow> connect_pool drv c w
      | SqlServerConnector \<Rightarrow> connect_pool drv c w
      | SqliteConnector \<Rightarrow> connect_sqlite drv c w
      | HiveConnector \<Rightarrow> connect_hive drv c w
      | ImpalaConnector \<Rightarrow> connect_hive drv c w)"

subsection \<open>disconnect\<close>

text \<open>
  Postgres, MySQL, SQL Server and SQLite: \<open>if (this.pool) { await this.pool.end();
  this.pool = null; this._isConnected = false; }\<close>, with no \<open>try\<close> around the close.
\<close>

definition disconnect_pool :: "'w driver \<Rightarrow> connector \<Rightarrow> 'w \<Rightarrow> (error + unit) \<times> connector \<times> 'w" where
  "disconnect_pool drv c w =
     (case pool c of
        None \<Rightarrow> (Inr (), c, w)
      | Some h \<Rightarrow>
          (case closePool drv h w of
             (Some msg, w1) \<Rightarrow> (Inl (Error msg), c, w1)
           | (None, w1) \<Rightarrow> (Inr (), c\<lparr>pool := None, isConnected := False\<rparr>, w1)))"

text \<open>Hive: the three steps of the \<open>try\<close> block; the first failure ends it.\<close>

definition hiveCloseAll :: "'w driver \<Rightarrow> connector \<Rightarrow> 'w \<Rightarrow> 'w" where
  "hiveCloseAll drv c w =
     (case (if session c \<noteq> None \<and> client c \<noteq> None
            then closeSession drv (orElse (session c) 0) w else (None, w)) of
        (Some msg, w1) \<Rightarrow> w1
      | (None, w1) \<Rightarrow>
          (case (if client c \<noteq> None then closeClient drv (orElse (client c) 0) w1 else (None, w1)) of
             (Some msg, w2) \<Rightarrow> w2
           | (None, w2) \<Rightarrow>
               (case kerberosAuth c of
                  Some k \<Rightarrow> snd (destroy drv k w2)
                | None \<Rightarrow> w2)))"

definition disconnect_hive :: "'w driver \<Rightarrow> connector \<Rightarrow> 'w \<Rightarrow> (error + unit) \<times> connector \<times> 'w" where
  "disconnect_hive drv c w =
     (let w1 = hiveCloseAll drv c w in
      (Inr (), c\<lparr>client := None, session := None, kerberosAuth := None, isConnected := False\<rparr>, w1))"

definition disconnect :: "'w driver \<Rightarrow> connector \<Rightarrow> 'w \<Rightarrow> (error + unit) \<times> connector \<times> 'w" where
  "disconnect drv c w =
     (case variant c of
        PostgresConnector \<Rightarrow> disconnect_pool drv c w
      | MySqlConnector \<Rightarrow> disconnect_pool drv c w
      | SqlServerConnector \<Rightarrow> disconnect_pool drv c w
      | SqliteConnector \<Rightarrow> disconnect_pool drv c w
      | HiveConnector \<Rightarrow> disconnect_hive drv c w
      | ImpalaConnector \<Rightarrow> disconnect_hive drv c w)"

subsection \<open>executeQuery\<close>

definition executeQuery_postgres ::
  "'w driver \<Rightarrow> connector \<Rightarrow> string \<Rightarrow> param list option \<Rightarrow> nat \<Rightarrow> nat option \<Rightarrow> 'w \<Rightarrow>
   (error + row queryResult) \<times> 'w" where
  "executeQuery_postgres drv c sql ps maxRows' timeout w =
     (case pool c of
        None \<Rightarrow> (Inl (QueryError (sourceId c) sql ''Not connected''), w)
      | Some h \<Rightarrow>
          (let wrappedSql = wrapWithLimit sql (maxRows' + 1) in
           case poolQuery drv h wrappedSql ps w of
             (Inl msg, w1) \<Rightarrow> (Inl (QueryError (sourceId c) sql msg), w1)
           | (Inr result, w1) \<Rightarrow>
               (let cols = orElse (pg_fields result) [];
                    fr = formatRows (pg_rows result) maxRows'
                in (Inr \<lparr> rows = rows fr, truncated = truncated fr, columns = cols,
                          rowCount = orElse (pg_rowCount result) (length (rows fr)) \<rparr>, w1))))"



section \<open>ConnectorManager\<close>

text \<open>
  The \<open>Map\<close> from source id to connector, in insertion order. \<open>mapSet\<close> is \<open>Map.set\<close>: a
  known key keeps its place, a new one goes to the end.
\<close>

fun mapSet :: "('k \<times> 'v) list \<Rightarrow> 'k \<Rightarrow> 'v \<Rightarrow> ('k \<times> 'v) list" where
  "mapSet [] k v = [(k, v)]"
| "mapSet ((k', v') # rest) k v = (if k' = k then (k, v) # rest else (k', v') # mapSet rest k v)"

record connectorManager =
  connectors :: "(string \<times> connector) list"
  globalOptions :: partialOptions

definition createConnector :: "partialOptions \<Rightarrow> sourceConfig \<Rightarrow> error + connector" where
  "createConnector global cfg =
     (let opts = global\<lparr> p_readonly := orElseOpt (cfg_readonly cfg) (p_readonly global) \<rparr> in
      if cfg_type cfg = ''postgres'' then Inr (newConnector PostgresConnector cfg opts)
      else if cfg_type cfg = ''mysql'' \<or> cfg_type cfg = ''mariadb''
      then Inr (newConnector MySqlConnector cfg opts)
      else if cfg_type cfg = ''sqlserver'' then Inr (newConnector SqlServerConnector cfg opts)
      else if cfg_type cfg = ''hive'' then Inr (newConnector HiveConnector cfg opts)
      else if cfg_type cfg = ''impala'' then Inr (newConnector ImpalaConnector cfg opts)
      else Inl (Error (''Unsupported database type: '' @ cfg_type cfg)))"

fun createAll ::
  "partialOptions \<Rightarrow> (string \<times> sourceConfig) list \<Rightarrow> (string \<times> connector) list \<Rightarrow>
   error + (string \<times> connector) list" where
  "createAll global [] acc = Inr acc"
| "createAll global ((sid, cfg) # rest) acc =
     (case createConnector global cfg of
        Inl e \<Rightarrow> Inl e
      | Inr c \<Rightarrow> createAll global rest (mapSet acc sid c))"

definition newConnectorManager :: "parsedConfig \<Rightarrow> error + connectorManager" where
  "newConnectorManager cfg =
     (let global = \<lparr> p_readonly = Some (set_readonly (settings cfg)),
                      p_maxRows = Some (max_rows (settings cfg)),
                      p_queryTimeout = query_timeout (settings cfg),
                      p_connectionTimeout = connection_timeout (settings cfg) \<rparr> in
      case createAll global (sources cfg) [] of
        Inl e \<Rightarrow> Inl e
      | Inr cs \<Rightarrow> Inr \<lparr> connectors = cs, globalOptions = global \<rparr>)"

definition get :: "connectorManager \<Rightarrow> string \<Rightarrow> connector option" where
  "get m sid = map_of (connectors m) sid"

definition getDefault :: "connectorManager \<Rightarrow> connector option" where
  "getDefault m =
     (if length (connectors m) = 1 then Some (snd (hd (connectors m)))
      else map_of (connectors m) ''default'')"

definition listSourceIds :: "connectorManager \<Rightarrow> string list" where
  "listSourceIds m = map fst (connectors m)"

fun join :: "string \<Rightarrow> string list \<Rightarrow> string" where
  "join sep [] = []"
| "join sep [x] = x"
| "join sep (x # y # rest) = x @ sep @ join sep (y # rest)"

definition resolve :: "connectorManager \<Rightarrow> string option \<Rightarrow> error + connector" where
  "resolve m sid =
     (if truthy sid then
        (case get m (orElse sid []) of
           None \<Rightarrow>
             Inl (Error (''Unknown source: '' @ orElse sid [] @ ''. Available sources: '' @
                         join '', '' (listSourceIds m)))
         | Some c \<Rightarrow> Inr c)
      else
        (case getDefault m of
           None \<Rightarrow>
             Inl (Error (''Multiple sources configured. Please specify source_id. Available: '' @
                         join '', '' (listSourceIds m)))
         | Some c \<Rightarrow> Inr c))"

section \<open>The tool layer\<close>

record toolResult =
  content_text :: string
  isError :: bool

definition formatErrorForResponse :: "error \<Rightarrow> string" where
  "formatErrorForResponse e =
     (case e of
        QueryError sid q cause \<Rightarrow> ''Database Error ('' @ sid @ ''): '' @ message e
      | ConnectionError sid cause \<Rightarrow> ''Database Error ('' @ sid @ ''): '' @ message e
      | KerberosError msg \<Rightarrow> ''Kerberos Authentication Error: '' @ msg
      | Error msg \<Rightarrow> ''Error: '' @ msg)"

definition errorResult :: "error \<Rightarrow> toolResult" where
  "errorResult e = \<lparr> content_text = formatErrorForResponse e, isError = True \<rparr>"

record executeSqlInput =
  source_id :: "string option"
  input_sql :: string
  params :: "param list option"
  response_format :: "string option"

record schemaSearchOptions =
  objectType :: "string option"
  schema :: "string option"
  table :: "string option"
  pattern :: "string option"

record searchObjectsInput =
  so_source_id :: "string option"
  so_object_type :: "string option"
  so_schema :: "string option"
  so_table :: "string option"
  so_pattern :: "string option"
  so_response_format :: "string option"

text \<open>
  The connector object is changed in place by \<open>connect\<close>; the tools return, next to their
  response, the state of the connector they resolved, and the world. The adapter's
  \<open>executeQuery\<close> and \<open>searchObjects\<close> and the formatters are parameters.
\<close>

definition executeSql ::
  "(connector \<Rightarrow> string \<Rightarrow> param list option \<Rightarrow> nat \<Rightarrow> nat option \<Rightarrow> 'w \<Rightarrow> (error + 'q) \<times> 'w) \<Rightarrow>
   ('q \<Rightarrow> string \<Rightarrow> string) \<Rightarrow> 'w driver \<Rightarrow> connectorManager \<Rightarrow> executeSqlInput \<Rightarrow> 'w \<Rightarrow>
   toolResult \<times> connector option \<times> 'w" where
  "executeSql executeQuery formatQueryResults drv m input w =
     (if input_sql input = [] \<or> length (trim (input_sql input)) = 0
      then (\<lparr> content_text = ''Error: SQL query is required'', isError = True \<rparr>, None, w)
      else
        (case resolve m (source_id input) of
           Inl e \<Rightarrow> (errorResult e, None, w)
         | Inr c \<Rightarrow>
             (case (if \<not> isConnected c then connect drv c w else (Inr (), c, w)) of
                (Inl e, c1, w1) \<Rightarrow> (errorResult e, Some c1, w1)
              | (Inr u, c1, w1) \<Rightarrow>
                  (case execute executeQuery c1 (input_sql input)
                          (Some \<lparr> eo_params = params input, eo_maxRows = None, eo_timeout = None \<rparr>) w1 of
                     (Inl e, w2) \<Rightarrow> (errorResult e, Some c1, w2)
                   | (Inr result, w2) \<Rightarrow>
                       (\<lparr> content_text = formatQueryResults result (orElse (response_format input) ''markdown''),
                          isError = False \<rparr>, Some c1, w2)))))"

definition searchObjects ::
  "(connector \<Rightarrow> schemaSearchOptions \<Rightarrow> 'w \<Rightarrow> (error + 'o) \<times> 'w) \<Rightarrow>
   ('o \<Rightarrow> string \<Rightarrow> string) \<Rightarrow> 'w driver \<Rightarrow> connectorManager \<Rightarrow> searchObjectsInput \<Rightarrow> 'w \<Rightarrow>
   toolResult \<times> connector option \<times> 'w" where
  "searchObjects connectorSearch formatSchemaObjects drv m input w =
     (if so_object_type input = Some ''column'' \<and> \<not> truthy (so_table input)
      then (\<lparr> content_text = ''Error: Table name is required when searching for columns'',
              isError = True \<rparr>, None, w)
      else
        (case resolve m (so_source_id input) of
           Inl e \<Rightarrow> (errorResult e, None, w)
         | Inr c \<Rightarrow>
             (case (if \<not> isConnected c then connect drv c w else (Inr (), c, w)) of
                (Inl e, c1, w1) \<Rightarrow> (errorResult e, Some c1, w1)
              | (Inr u, c1, w1) \<Rightarrow>
                  (case connectorSearch c1
                          \<lparr> objectType = so_object_type input, schema = so_schema input,
                            table = so_table input, pattern = so_pattern input \<rparr> w1 of
                     (Inl e, w2) \<Rightarrow> (errorResult e, Some c1, w2)
                   | (Inr objects, w2) \<Rightarrow>
                       (\<lparr> content_text = formatSchemaObjects objects
                                   (orElse (so_response_format input) ''markdown''),
                          isError = False \<rparr>, Some c1, w2)))))"

section \<open>A scripted driver\<close>

text \<open>
  A driver whose world is the list of the calls made so far, most recent last, and whose
  outcomes are fixed in advance: whether opening, closing and \<open>kdestroy\<close> succeed, and the
  rows a query returns.
\<close>

definition scriptedDriver :: "bool \<Rightarrow> bool \<Rightarrow> bool \<Rightarrow> row list \<Rightarrow> (string list) driver" where
  "scriptedDriver openOk closeOk kdestroyOk rs =
     \<lparr> newPool = (\<lambda>cfg opts w. (Inr 1, w @ [''newPool''])),
       verifyPool = (\<lambda>h w. (if openOk then None else Some ''connection refused'', w @ [''verifyPool''])),
       closePool = (\<lambda>h w. (if closeOk then None else Some ''close failed'', w @ [''closePool''])),
       poolQuery = (\<lambda>h q ps w. (Inr \<lparr> pg_fields = Some [''n''], pg_rows = rs,
                                       pg_rowCount = Some (length rs) \<rparr>, w @ [q])),
       dbAll = (\<lambda>h q ps w. (Inr rs, w @ [q])),
       dbRun = (\<lambda>h q ps w. (Inr (1, 1), w @ [q])),
       importHiveDriver = (\<lambda>w. (True, w @ [''import hive-driver''])),
       newClient = (\<lambda>w. (2, w)),
       clientConnect = (\<lambda>h cfg w. (if openOk then None else Some ''connection refused'',
                                   w @ [''client.connect''])),
       openSession = (\<lambda>h w. (Inr 3, w @ [''openSession''])),
       closeSession = (\<lambda>h w. (if closeOk then None else Some ''close failed'', w @ [''session.close''])),
       closeClient = (\<lambda>h w. (if closeOk then None else Some ''close failed'', w @ [''client.close''])),
       existsSync = (\<lambda>path w. True),
       spawnKinit = (\<lambda>kt pr w. (None, w @ [''kinit''])),
       spawnKlist = (\<lambda>w. (Inl ''Failed to run klist'', w @ [''klist''])),
       spawnKdestroy = (\<lambda>w. (if kdestroyOk then None else Some ''kdestroy failed with code 1'',
                              w @ [''kdestroy''])),
       dateNow = (\<lambda>w. 0) \<rparr>"

definition exampleConfig :: "string \<Rightarrow> string \<Rightarrow> sourceConfig" where
  "exampleConfig sid ty =
     \<lparr> cfg_id = sid, cfg_type = ty, cfg_readonly = None, auth_mechanism = ''NONE'',
       keytab = None, user_principal = None \<rparr>"

definition exampleGlobal :: "bool \<Rightarrow> nat \<Rightarrow> partialOptions" where
  "exampleGlobal ro n =
     \<lparr> p_readonly = Some ro, p_maxRows = Some n, p_queryTimeout = None,
       p_connectionTimeout = None \<rparr>"


definition exampleConnector :: "variant \<Rightarrow> bool \<Rightarrow> nat \<Rightarrow> connector" where
  "exampleConnector v ro n =
     newConnector v
       (exampleConfig ''db''
          (case v of
             PostgresConnector \<Rightarrow> ''postgres''
           | MySqlConnector \<Rightarrow> ''mysql''
           | SqlServerConnector \<Rightarrow> ''sqlserver''
           | SqliteConnector \<Rightarrow> ''sqlite''
           | HiveConnector \<Rightarrow> ''hive''
           | ImpalaConnector \<Rightarrow> ''impala''))
       (exampleGlobal ro n)"

definition exampleRows :: "row list" where
  "exampleRows = [[(''n'', Num 1)], [(''n'', Num 2)], [(''n'', Num 3)]]"

definition exampleManager :: "string list \<Rightarrow> connectorManager" where
  "exampleManager ids =
     \<lparr> connectors = map (\<lambda>i. (i, newConnector PostgresConnector (exampleConfig i ''postgres'')
                                     (exampleGlobal False 10))) ids,
       globalOptions = exampleGlobal False 10 \<rparr>"

definition exampleAuth :: kerberosAuth where
  "exampleAuth =
     \<lparr> kerb_keytab = ''/etc/security/svc.keytab'', kerb_principal = ''svc@EXAMPLE.COM'',
       initialized = True, ticketExpiry = None, refreshTimer = Some 14400000 \<rparr>"

definition ownsHandle :: "connector \<Rightarrow> bool" where
  "ownsHandle c =
     (case variant c of
        HiveConnector \<Rightarrow> session c \<noteq> None
      | ImpalaConnector \<Rightarrow> session c \<noteq> None
      | _ \<Rightarrow> pool c \<noteq> None)"

definition exampleInput :: executeSqlInput where
  "exampleInput =
     \<lparr> source_id = None, input_sql = ''select n from t'', params = None, response_format = None \<rparr>"

definition exampleSearch :: searchObjectsInput where
  "exampleSearch =
     \<lparr> so_source_id = None, so_object_type = Some ''table'', so_schema = None, so_table = None,
       so_pattern = None, so_response_format = None \<rparr>"

definition countRows :: "row queryResult \<Rightarrow> string \<Rightarrow> string" where
  "countRows r fmt = numberToString (length (rows r)) @ '' rows as '' @ fmt"

definition noCatalog :: "connector \<Rightarrow> schemaSearchOptions \<Rightarrow> string list \<Rightarrow> (error + string list) \<times> string list" where
  "noCatalog c opts w =
     (if pool c = None then (Inl (Error ''Not connected''), w) else (Inr [], w @ [''catalog query'']))"

definition exampleParsed :: "(string \<times> string) list \<Rightarrow> parsedConfig" where
  "exampleParsed srcs =
     \<lparr> settings = \<lparr> set_readonly = False, max_rows = 1000, query_timeout = None,
                     connection_timeout = None \<rparr>,
       sources = map (\<lambda>(sid, ty). (sid, exampleConfig sid ty)) srcs \<rparr>"

section \<open>What the claims call a limiting clause\<close>






section \<open>Write classification and the read-only gate\<close>

lemmas string_eval =
  trim_def isWhiteSpace_def toUpperCase_def toUpperChar_def startsWith_def
  isWriteQuery_def writeKeywords_def

lemma matchKeyword_iff:
  "matchKeyword n ks \<longleftrightarrow> (\<exists>k \<in> set ks. startsWith n k)"
  by (induction ks) auto

lemma startsWith_toUpperCase:
  "startsWith (toUpperCase s) k \<longleftrightarrow> toUpperCase (take (length k) s) = k"
  by (simp add: startsWith_def toUpperCase_def take_map)

lemma isWriteQuery_iff:
  "isWriteQuery sql \<longleftrightarrow>
     (\<exists>k \<in> set writeKeywords. toUpperCase (take (length k) (trim sql)) = k)"
  by (simp add: isWriteQuery_def matchKeyword_iff startsWith_toUpperCase)

text \<open>
  Claim C1. On a connected connector whose merged \<open>readonly\<close> option is set, \<open>execute\<close>
  fails with the read-only \<open>QueryError\<close>, leaving the world untouched whatever the adapter's
  \<open>executeQuery\<close> is, exactly when the upper-cased start of the trimmed statement is one of
  the twelve keywords; otherwise it hands the statement to \<open>executeQuery\<close>. A \<open>SELECT\<close> that
  has \<open>update\<close> inside a string literal is not classified as a write.
\<close>

theorem readonly_blocks_leading_write_keyword:
  assumes "readonly (options c)" and "isConnected c"
  shows "((\<exists>k \<in> set writeKeywords. toUpperCase (take (length k) (trim sql)) = k) \<longrightarrow>
            execute executeQuery c sql opts w =
              (Inl (QueryError (sourceId c) sql
                      ''Write operations are not allowed in read-only mode''), w))
       \<and> (\<not> (\<exists>k \<in> set writeKeywords. toUpperCase (take (length k) (trim sql)) = k) \<longrightarrow>
            execute executeQuery c sql opts w =
              executeQuery c sql (Option.bind opts eo_params)
                (orElse (Option.bind opts eo_maxRows) (maxRows (options c)))
                (orElseOpt (Option.bind opts eo_timeout) (queryTimeout (options c))) w)
       \<and> \<not> isWriteQuery ''SELECT id FROM notes WHERE body = 'please update me' ''"
proof -
  have "\<not> isWriteQuery ''SELECT id FROM notes WHERE body = 'please update me' ''"
    by (simp add: string_eval)
  then show ?thesis
    using assms by (simp add: execute_def isWriteQuery_iff Let_def)
qed

theorem readonly_blocks_leading_write_keyword_witness:
  "readonly (options ((exampleConnector PostgresConnector True 10)\<lparr>isConnected := True\<rparr>)) \<and>
   isConnected ((exampleConnector PostgresConnector True 10)\<lparr>isConnected := True\<rparr>) \<and>
   execute (executeQuery_postgres (scriptedDriver True True True []))
     ((exampleConnector PostgresConnector True 10)\<lparr>isConnected := True\<rparr>)
     ''  delete from t'' None [] =
     (Inl (QueryError ''db'' ''  delete from t''
        ''Write operations are not allowed in read-only mode''), [])"
  using readonly_blocks_leading_write_keyword
    [of "(exampleConnector PostgresConnector True 10)\<lparr>isConnected := True\<rparr>"
      "''  delete from t''" "executeQuery_postgres (scriptedDriver True True True [])" None "[]"]
  by (simp add: exampleConnector_def newConnector_def sourceId_def exampleConfig_def
        exampleGlobal_def orElse_def string_eval)

section \<open>The connectivity check\<close>

text \<open>
  Claim C2. \<open>execute\<close> on a connector that is not connected fails with the
  \<open>Not connected to database\<close> \<open>QueryError\<close> for every statement, and the world it returns
  is the one it was given, whatever engine-specific \<open>executeQuery\<close> the adapter has: that
  function is not called.
\<close>

theorem execute_not_connected:
  "\<not> isConnected c \<Longrightarrow>
     execute executeQuery c sql opts w =
       (Inl (QueryError (sourceId c) sql ''Not connected to database''), w)"
  by (simp add: execute_def)

theorem execute_not_connected_witness:
  "\<not> isConnected (exampleConnector PostgresConnector False 10) \<and>
   execute (executeQuery_postgres (scriptedDriver True True True []))
     (exampleConnector PostgresConnector False 10) ''SELECT 1'' None [] =
     (Inl (QueryError ''db'' ''SELECT 1'' ''Not connected to database''), [])"
  using execute_not_connected [of "exampleConnector PostgresConnector False 10"
      "executeQuery_postgres (scriptedDriver True True True [])" "''SELECT 1''" None "[]"]
  by (simp add: exampleConnector_def newConnector_def sourceId_def exampleConfig_def)

section \<open>Row truncation\<close>

text \<open>
  Claim C3. The truncation law of \<open>formatRows\<close>: more than \<open>n\<close> fetched rows give
  \<open>truncated\<close> and exactly the first \<open>n\<close> rows; at most \<open>n\<close> fetched rows give all of them
  and no flag. The result of \<open>execute\<close> through the Postgres adapter carries the same flag
  and rows, for the rows the pool returned and the effective row bound.
\<close>

theorem truncation_law:
  "(n < length fetched \<longrightarrow>
      truncated (formatRows fetched n) \<and> rows (formatRows fetched n) = take n fetched \<and>
      length (rows (formatRows fetched n)) = n)
   \<and> (length fetched \<le> n \<longrightarrow>
      \<not> truncated (formatRows fetched n) \<and> rows (formatRows fetched n) = fetched)
   \<and> (isConnected c \<and> pool c = Some h \<and> \<not> (readonly (options c) \<and> isWriteQuery sql) \<and>
       poolQuery drv h (wrapWithLimit sql (orElse (Option.bind opts eo_maxRows) (maxRows (options c)) + 1))
         (Option.bind opts eo_params) w = (Inr res, w') \<longrightarrow>
       (\<exists>r. execute (executeQuery_postgres drv) c sql opts w = (Inr r, w') \<and>
            truncated r = (orElse (Option.bind opts eo_maxRows) (maxRows (options c)) < length (pg_rows res)) \<and>
            rows r = take (orElse (Option.bind opts eo_maxRows) (maxRows (options c))) (pg_rows res)))"
  by (auto simp add: formatRows_def execute_def executeQuery_postgres_def Let_def)

theorem truncation_law_witness:
  "(2 < length exampleRows \<and> truncated (formatRows exampleRows 2) \<and>
      rows (formatRows exampleRows 2) = [[(''n'', Num 1)], [(''n'', Num 2)]])
   \<and> (length exampleRows \<le> 3 \<and> \<not> truncated (formatRows exampleRows 3) \<and>
      rows (formatRows exampleRows 3) = exampleRows)
   \<and> (\<exists>r. execute (executeQuery_postgres (scriptedDriver True True True exampleRows))
             ((exampleConnector PostgresConnector True 2)\<lparr>isConnected := True, pool := Some 1\<rparr>)
             ''select n from t'' None [] = (Inr r, [''select n from t LIMIT 3'']) \<and>
           truncated r \<and> rows r = [[(''n'', Num 1)], [(''n'', Num 2)]])"
proof -
  let ?c = "(exampleConnector PostgresConnector True 2)\<lparr>isConnected := True, pool := Some 1\<rparr>"
  let ?drv = "scriptedDriver True True True exampleRows"
  have w: "wrapWithLimit ''select n from t'' 3 = ''select n from t LIMIT 3''"
    by code_simp
  have nw: "\<not> isWriteQuery ''select n from t''"
    by (simp add: string_eval)
  have m: "maxRows (options ?c) = 2"
    by (simp add: exampleConnector_def newConnector_def exampleGlobal_def orElse_def)
  have q: "poolQuery ?drv 1 ''select n from t LIMIT 3'' None [] =
      (Inr \<lparr> pg_fields = Some [''n''], pg_rows = exampleRows, pg_rowCount = Some 3 \<rparr>,
       [''select n from t LIMIT 3''])"
    by (simp add: scriptedDriver_def exampleRows_def)
  show ?thesis
    using truncation_law [of 2 exampleRows ?c 1 "''select n from t''" ?drv None "[]"
        "\<lparr> pg_fields = Some [''n''], pg_rows = exampleRows, pg_rowCount = Some 3 \<rparr>"
        "[''select n from t LIMIT 3'']"]
      truncation_law [of 3 exampleRows ?c 1 "''select n from t''" ?drv None "[]"
        "\<lparr> pg_fields = Some [''n''], pg_rows = exampleRows, pg_rowCount = Some 3 \<rparr>"
        "[''select n from t LIMIT 3'']"]
      w nw m q
    by (simp add: exampleRows_def orElse_def exampleConnector_def newConnector_def)
qed


section \<open>Row-limit injection\<close>

lemma str_includes_prefix: "str_includes (p @ b) p"
proof (cases "p @ b")
  case Nil
  then show ?thesis by simp
next
  case (Cons c cs)
  have "startsWith (p @ b) p" by (simp add: startsWith_def)
  then have "str_includes (c # cs) p" unfolding Cons by simp
  then show ?thesis unfolding Cons .
qed

lemma str_includes_append: "str_includes (a @ p @ b) p"
proof (induction a)
  case Nil
  show ?case using str_includes_prefix by simp
next
  case (Cons x a)
  then show ?case by simp
qed

lemma dropWhile_rev_append:
  assumes "a \<noteq> []" and "\<not> P (last a)"
  shows "rev (dropWhile P (rev (a @ b))) = a @ rev (dropWhile P (rev b))"
proof -
  have "dropWhile P (rev a) = rev a"
    using assms by (cases "rev a") (auto simp add: last_rev hd_rev[symmetric] dest: arg_cong[where f=hd])
  then have "dropWhile P (rev b @ rev a) = dropWhile P (rev b) @ rev a"
    by (auto simp add: dropWhile_append)
  then show ?thesis by simp
qed

lemma trim_keeps_front:
  assumes "a \<noteq> []" and "\<not> isWhiteSpace (hd a)" and "\<not> isWhiteSpace (last a)"
  shows "trim (a @ b) = a @ rev (dropWhile isWhiteSpace (rev b))"
proof -
  have "dropWhile isWhiteSpace (a @ b) = a @ b"
    using assms by (cases a) auto
  then have "trim (a @ b) = rev (dropWhile isWhiteSpace (rev (a @ b)))"
    by (simp only: trim_def)
  also have "\<dots> = a @ rev (dropWhile isWhiteSpace (rev b))"
    using assms(1,3) by (rule dropWhile_rev_append)
  finally show ?thesis .
qed

lemma trim_fixed:
  assumes "a \<noteq> []" and "\<not> isWhiteSpace (hd a)" and "\<not> isWhiteSpace (last a)"
  shows "trim a = a"
  using trim_keeps_front [OF assms, of "[]"] by simp

lemma trim_hd:
  assumes "trim s \<noteq> []"
  shows "\<not> isWhiteSpace (hd (trim s))"
proof -
  let ?t = "dropWhile isWhiteSpace s"
  have split: "?t = trim s @ rev (takeWhile isWhiteSpace (rev ?t))"
    unfolding trim_def
    by (metis rev_append rev_rev_ident takeWhile_dropWhile_id)
  have "?t \<noteq> []" using assms split by (metis Nil_is_append_conv)
  then have "\<not> isWhiteSpace (hd ?t)" by (simp add: hd_dropWhile)
  moreover have "hd ?t = hd (trim s)" using assms split by (metis hd_append2)
  ultimately show ?thesis by simp
qed

lemma digitChar_not_space: "d < 10 \<Longrightarrow> \<not> isWhiteSpace (digitChar d)"
proof -
  assume "d < 10"
  then have "d \<in> {0, 1, 2, 3, 4, 5, 6, 7, 8, 9}" by auto
  then show ?thesis
    by (auto simp add: digitChar_def isWhiteSpace_def nth_Cons')
qed

lemma numberToString_nonempty: "numberToString n \<noteq> []"
  by (subst numberToString.simps) simp

lemma numberToString_last: "\<not> isWhiteSpace (last (numberToString n))"
  by (subst numberToString.simps) (simp add: digitChar_not_space)

lemma toUpperCase_append: "toUpperCase (a @ b) = toUpperCase a @ toUpperCase b"
  by (simp add: toUpperCase_def)

lemma wrapped_limit_detected:
  assumes "t \<noteq> []" and "\<not> isWhiteSpace (hd t)"
  shows "str_includes (toUpperCase (trim (t @ '' LIMIT '' @ numberToString n))) '' LIMIT ''"
proof -
  let ?out = "t @ '' LIMIT '' @ numberToString n"
  have "?out \<noteq> []" using assms by simp
  moreover have "hd ?out = hd t" using assms by simp
  moreover have "last ?out = last (numberToString n)"
    using numberToString_nonempty by simp
  ultimately have fixed: "trim ?out = ?out"
    using assms numberToString_last by (intro trim_fixed) simp_all
  have up: "toUpperCase ?out = toUpperCase t @ '' LIMIT '' @ toUpperCase (numberToString n)"
    by (simp add: toUpperCase_def toUpperChar_def)
  show ?thesis
    by (simp only: fixed up str_includes_append)
qed

lemma wrapWithLimit_again:
  "wrapWithLimit (wrapWithLimit s n) m = wrapWithLimit s n"
proof (cases "str_includes (toUpperCase (trim s)) '' LIMIT '' \<or>
              str_includes (toUpperCase (trim s)) '' TOP '' \<or>
              str_includes (toUpperCase (trim s)) '' FETCH '' \<or>
              \<not> startsWith (toUpperCase (trim s)) ''SELECT''")
  case True
  then have "wrapWithLimit s k = s" for k
    by (auto simp add: wrapWithLimit_def Let_def)
  then show ?thesis by simp
next
  case False
  then have sel: "startsWith (toUpperCase (trim s)) ''SELECT''"
    and out: "wrapWithLimit s n = trim s @ '' LIMIT '' @ numberToString n"
    by (auto simp add: wrapWithLimit_def Let_def)
  from sel have ne: "trim s \<noteq> []"
    by (auto simp add: startsWith_def toUpperCase_def)
  then have "\<not> isWhiteSpace (hd (trim s))" by (rule trim_hd)
  with ne have "str_includes (toUpperCase (trim (wrapWithLimit s n))) '' LIMIT ''"
    unfolding out by (rule wrapped_limit_detected)
  then show ?thesis by (simp add: wrapWithLimit_def Let_def)
qed


lemma inserted_top_detected:
  "str_includes (toUpperCase (trim (''SELECT TOP '' @ numberToString n @ rest))) '' TOP ''"
proof -
  let ?a = "''SELECT TOP '' @ numberToString n"
  let ?r = "rev (dropWhile isWhiteSpace (rev rest))"
  have "?a \<noteq> []" by simp
  moreover have "\<not> isWhiteSpace (hd ?a)" by (simp add: isWhiteSpace_def)
  moreover have "\<not> isWhiteSpace (last ?a)"
    using numberToString_nonempty numberToString_last by simp
  ultimately have "trim (?a @ rest) = ?a @ ?r" by (rule trim_keeps_front)
  then have t: "trim (''SELECT TOP '' @ numberToString n @ rest) = ?a @ ?r" by simp
  have up: "toUpperCase (?a @ ?r) = ''SELECT'' @ '' TOP '' @ toUpperCase (numberToString n @ ?r)"
    by (simp add: toUpperCase_def toUpperChar_def)
  show ?thesis
    by (simp only: t up str_includes_append)
qed

lemma wrapWithLimit_sqlserver_again:
  "wrapWithLimit_sqlserver (wrapWithLimit_sqlserver s n) m = wrapWithLimit_sqlserver s n"
proof (cases "str_includes (toUpperCase (trim s)) '' TOP '' \<or>
              str_includes (toUpperCase (trim s)) '' OFFSET '' \<or>
              \<not> startsWith (toUpperCase (trim s)) ''SELECT''")
  case True
  then have "wrapWithLimit_sqlserver s k = s" for k
    by (auto simp add: wrapWithLimit_sqlserver_def Let_def)
  then show ?thesis by simp
next
  case False
  then have out: "wrapWithLimit_sqlserver s k =
      replaceLeadingSelect s (''SELECT TOP '' @ numberToString k)" for k
    by (auto simp add: wrapWithLimit_sqlserver_def Let_def)
  show ?thesis
  proof (cases "toUpperCase (take 6 s) = ''SELECT''")
    case True
    then have "wrapWithLimit_sqlserver s n = ''SELECT TOP '' @ numberToString n @ drop 6 s"
      by (simp add: out replaceLeadingSelect_def)
    then have "str_includes (toUpperCase (trim (wrapWithLimit_sqlserver s n))) '' TOP ''"
      by (simp only: inserted_top_detected)
    then show ?thesis by (simp add: wrapWithLimit_sqlserver_def Let_def)
  next
    case False
    then have "wrapWithLimit_sqlserver s k = s" for k
      by (simp add: out replaceLeadingSelect_def)
    then show ?thesis by simp
  qed
qed










text \<open>
  Claim C5. A statement that already has the engine's limiting clause is rewritten all
  the same when the keyword does not stand between two spaces: a \<open>LIMIT\<close> clause on a line
  of its own gets a second \<open>LIMIT\<close> from the base helper, and a \<open>TOP(5)\<close> gets a second
  \<open>TOP\<close> from the SQL Server override. (The second application of either helper does
  return the result of the first, by the two lemmas above.)
\<close>

theorem limit_clause_rewritten_again:
  "wrapWithLimit (''select id from orders'' @ [CHR 0x0A] @ ''LIMIT 3'') 11 =
     ''select id from orders'' @ [CHR 0x0A] @ ''LIMIT 3 LIMIT 11''
   \<and> wrapWithLimit_sqlserver ''SELECT TOP(5) * FROM t'' 11 = ''SELECT TOP 11 TOP(5) * FROM t''"
  by code_simp


section \<open>The factory\<close>

lemma createAll_succeeds_iff:
  "(\<exists>cs. createAll g srcs acc = Inr cs) \<longleftrightarrow>
     (\<forall>sc \<in> snd ` set srcs.
        cfg_type sc \<in> set [''postgres'', ''mysql'', ''mariadb'', ''sqlserver'', ''hive'', ''impala''])"
proof (induction srcs arbitrary: acc)
  case Nil
  show ?case by simp
next
  case (Cons p srcs)
  obtain sid cfg where p: "p = (sid, cfg)" by (cases p)
  show ?case
  proof (cases "createConnector g cfg")
    case (Inl e)
    then have "cfg_type cfg \<notin> set [''postgres'', ''mysql'', ''mariadb'', ''sqlserver'', ''hive'', ''impala'']"
      by (auto simp add: createConnector_def Let_def split: if_splits)
    with Inl p show ?thesis by simp
  next
    case (Inr c)
    then have "cfg_type cfg \<in> set [''postgres'', ''mysql'', ''mariadb'', ''sqlserver'', ''hive'', ''impala'']"
      by (auto simp add: createConnector_def Let_def split: if_splits)
    with Inr p Cons.IH [of "mapSet acc sid c"] show ?thesis by simp
  qed
qed

text \<open>
  Claim C6, as amended. For a source descriptor whose engine type is \<open>postgres\<close>,
  \<open>mysql\<close>, \<open>mariadb\<close>, \<open>sqlserver\<close>, \<open>hive\<close> or \<open>impala\<close> the factory constructs a
  connector of the corresponding adapter (the MySQL one for both \<open>mysql\<close> and \<open>mariadb\<close>)
  holding that descriptor; every other engine type, \<open>sqlite\<close> among them, fails with the
  unsupported-type error. The registry is constructed exactly when every source has one
  of the six types.
\<close>

theorem factory_builds_wired_adapters:
  "(cfg_type cfg = ''postgres'' \<longrightarrow>
      (\<exists>c. createConnector g cfg = Inr c \<and> variant c = PostgresConnector \<and> config c = cfg))
   \<and> (cfg_type cfg = ''mysql'' \<or> cfg_type cfg = ''mariadb'' \<longrightarrow>
      (\<exists>c. createConnector g cfg = Inr c \<and> variant c = MySqlConnector \<and> config c = cfg \<and>
           dbType c = cfg_type cfg))
   \<and> (cfg_type cfg = ''sqlserver'' \<longrightarrow>
      (\<exists>c. createConnector g cfg = Inr c \<and> variant c = SqlServerConnector \<and> config c = cfg))
   \<and> (cfg_type cfg = ''hive'' \<longrightarrow>
      (\<exists>c. createConnector g cfg = Inr c \<and> variant c = HiveConnector \<and> config c = cfg))
   \<and> (cfg_type cfg = ''impala'' \<longrightarrow>
      (\<exists>c. createConnector g cfg = Inr c \<and> variant c = ImpalaConnector \<and> config c = cfg))
   \<and> (cfg_type cfg \<notin> set [''postgres'', ''mysql'', ''mariadb'', ''sqlserver'', ''hive'', ''impala''] \<longrightarrow>
      createConnector g cfg = Inl (Error (''Unsupported database type: '' @ cfg_type cfg)))
   \<and> ((\<exists>m. newConnectorManager pc = Inr m) \<longleftrightarrow>
      (\<forall>sc \<in> snd ` set (sources pc).
         cfg_type sc \<in> set [''postgres'', ''mysql'', ''mariadb'', ''sqlserver'', ''hive'', ''impala'']))"
proof (intro conjI impI)
  show "(\<exists>m. newConnectorManager pc = Inr m) \<longleftrightarrow>
      (\<forall>sc \<in> snd ` set (sources pc).
         cfg_type sc \<in> set [''postgres'', ''mysql'', ''mariadb'', ''sqlserver'', ''hive'', ''impala''])"
    using createAll_succeeds_iff
      [of "\<lparr> p_readonly = Some (set_readonly (settings pc)), p_maxRows = Some (max_rows (settings pc)),
             p_queryTimeout = query_timeout (settings pc),
             p_connectionTimeout = connection_timeout (settings pc) \<rparr>" "sources pc" "[]"]
    by (auto simp add: newConnectorManager_def Let_def split: sum.splits)
qed (auto simp add: createConnector_def newConnector_def dbType_def Let_def)

theorem factory_builds_wired_adapters_witness:
  "(\<exists>c. createConnector (exampleGlobal False 1000) (exampleConfig ''pg'' ''postgres'') = Inr c \<and>
        variant c = PostgresConnector)
   \<and> (\<exists>c. createConnector (exampleGlobal False 1000) (exampleConfig ''m'' ''mariadb'') = Inr c \<and>
        variant c = MySqlConnector \<and> dbType c = ''mariadb'')
   \<and> (\<exists>c. createConnector (exampleGlobal False 1000) (exampleConfig ''s'' ''sqlserver'') = Inr c \<and>
        variant c = SqlServerConnector)
   \<and> (\<exists>c. createConnector (exampleGlobal False 1000) (exampleConfig ''h'' ''hive'') = Inr c \<and>
        variant c = HiveConnector)
   \<and> (\<exists>c. createConnector (exampleGlobal False 1000) (exampleConfig ''i'' ''impala'') = Inr c \<and>
        variant c = ImpalaConnector)
   \<and> createConnector (exampleGlobal False 1000) (exampleConfig ''o'' ''oracle'') =
        Inl (Error ''Unsupported database type: oracle'')
   \<and> (\<exists>m. newConnectorManager (exampleParsed [(''a'', ''postgres''), (''b'', ''hive'')]) = Inr m)
   \<and> \<not> (\<exists>m. newConnectorManager (exampleParsed [(''a'', ''postgres''), (''b'', ''oracle'')]) = Inr m)"
proof -
  let ?g = "exampleGlobal False 1000"
  let ?ok = "exampleParsed [(''a'', ''postgres''), (''b'', ''hive'')]"
  let ?bad = "exampleParsed [(''a'', ''postgres''), (''b'', ''oracle'')]"
  have 1: "\<exists>c. createConnector ?g (exampleConfig ''pg'' ''postgres'') = Inr c \<and>
        variant c = PostgresConnector"
    using factory_builds_wired_adapters [of "exampleConfig ''pg'' ''postgres''" ?g ?ok]
    by (auto simp add: exampleConfig_def)
  have 2: "\<exists>c. createConnector ?g (exampleConfig ''m'' ''mariadb'') = Inr c \<and>
        variant c = MySqlConnector \<and> dbType c = ''mariadb''"
    using factory_builds_wired_adapters [of "exampleConfig ''m'' ''mariadb''" ?g ?ok]
    by (auto simp add: exampleConfig_def)
  have 3: "\<exists>c. createConnector ?g (exampleConfig ''s'' ''sqlserver'') = Inr c \<and>
        variant c = SqlServerConnector"
    using factory_builds_wired_adapters [of "exampleConfig ''s'' ''sqlserver''" ?g ?ok]
    by (auto simp add: exampleConfig_def)
  have 4: "\<exists>c. createConnector ?g (exampleConfig ''h'' ''hive'') = Inr c \<and>
        variant c = HiveConnector"
    using factory_builds_wired_adapters [of "exampleConfig ''h'' ''hive''" ?g ?ok]
    by (auto simp add: exampleConfig_def)
  have 5: "\<exists>c. createConnector ?g (exampleConfig ''i'' ''impala'') = Inr c \<and>
        variant c = ImpalaConnector"
    using factory_builds_wired_adapters [of "exampleConfig ''i'' ''impala''" ?g ?ok]
    by (auto simp add: exampleConfig_def)
  have 6: "createConnector ?g (exampleConfig ''o'' ''oracle'') =
        Inl (Error ''Unsupported database type: oracle'')"
    using factory_builds_wired_adapters [of "exampleConfig ''o'' ''oracle''" ?g ?ok]
    by (simp add: exampleConfig_def)
  have 7: "\<exists>m. newConnectorManager ?ok = Inr m"
    using factory_builds_wired_adapters [of "exampleConfig ''o'' ''oracle''" ?g ?ok]
    by (simp add: exampleConfig_def exampleParsed_def)
  have 8: "\<not> (\<exists>m. newConnectorManager ?bad = Inr m)"
    using factory_builds_wired_adapters [of "exampleConfig ''o'' ''oracle''" ?g ?bad]
    by (simp add: exampleConfig_def exampleParsed_def)
  from 1 2 3 4 5 6 7 8 show ?thesis by (intro conjI)
qed

text \<open>
  A source descriptor of type \<open>sqlite\<close> is refused by the factory, and a configuration
  that holds one yields no registry.
\<close>

theorem sqlite_source_rejected_by_factory:
  "createConnector (exampleGlobal False 1000) (exampleConfig ''local'' ''sqlite'') =
     Inl (Error ''Unsupported database type: sqlite'')
   \<and> newConnectorManager
        \<lparr> settings = \<lparr> set_readonly = False, max_rows = 1000, query_timeout = None,
                        connection_timeout = None \<rparr>,
          sources = [(''local'', exampleConfig ''local'' ''sqlite'')] \<rparr> =
     Inl (Error ''Unsupported database type: sqlite'')"
  by (simp add: createConnector_def newConnectorManager_def exampleConfig_def exampleGlobal_def
        Let_def)

section \<open>Resolution\<close>

lemma str_includes_suffix: "str_includes b p \<Longrightarrow> str_includes (a @ b) p"
  by (induction a) auto

lemma join_lists_each: "k \<in> set ks \<Longrightarrow> str_includes (join sep ks) k"
proof (induction sep ks rule: join.induct)
  case (1 sep)
  then show ?case by simp
next
  case (2 sep x)
  then show ?case using str_includes_prefix [of x "[]"] by simp
next
  case (3 sep x y rest)
  show ?case
  proof (cases "k = x")
    case True
    then show ?thesis using str_includes_prefix [of x "sep @ join sep (y # rest)"] by simp
  next
    case False
    with 3 have "str_includes (join sep (y # rest)) k" by simp
    then have "str_includes ((x @ sep) @ join sep (y # rest)) k" by (rule str_includes_suffix)
    then show ?thesis by simp
  qed
qed

lemma map_of_default_iff:
  "(\<exists>c. map_of xs k = Some c) \<longleftrightarrow> k \<in> fst ` set xs"
  by (metis map_of_eq_None_iff not_None_eq)

lemma listed_in_message:
  assumes "k \<in> fst ` set cs"
  shows "str_includes (pre @ join '', '' (map fst cs)) k"
proof -
  from assms have "k \<in> set (map fst cs)" by simp
  then have "str_includes (join '', '' (map fst cs)) k" by (rule join_lists_each)
  then show ?thesis by (rule str_includes_suffix)
qed

text \<open>
  Claim C7, as amended. \<open>resolve\<close> with a non-empty identifier returns the connector
  registered under it, or fails with the error that lists the registered identifiers
  when there is none. Without an identifier, or with the empty string, it succeeds
  exactly when one source is configured or a source named \<open>default\<close> exists, returning the
  single connector or else the one named \<open>default\<close>, and otherwise fails with the error
  that lists the registered identifiers. Whenever \<open>resolve\<close> fails, every key of the
  registry occurs in the message of its error.
\<close>

theorem resolve_dispatch:
  "(sid \<noteq> [] \<longrightarrow>
      (\<forall>c. map_of (connectors m) sid = Some c \<longrightarrow> resolve m (Some sid) = Inr c) \<and>
      (sid \<notin> fst ` set (connectors m) \<longrightarrow>
         resolve m (Some sid) =
           Inl (Error (''Unknown source: '' @ sid @ ''. Available sources: '' @
                       join '', '' (map fst (connectors m))))))
   \<and> resolve m (Some []) = resolve m None
   \<and> ((\<exists>c. resolve m None = Inr c) \<longleftrightarrow>
        (length (connectors m) = 1 \<or> ''default'' \<in> fst ` set (connectors m)))
   \<and> (length (connectors m) = 1 \<longrightarrow> resolve m None = Inr (snd (hd (connectors m))))
   \<and> (length (connectors m) \<noteq> 1 \<longrightarrow>
        (\<forall>c. map_of (connectors m) ''default'' = Some c \<longrightarrow> resolve m None = Inr c))
   \<and> (length (connectors m) \<noteq> 1 \<and> ''default'' \<notin> fst ` set (connectors m) \<longrightarrow>
        resolve m None =
          Inl (Error (''Multiple sources configured. Please specify source_id. Available: '' @
                      join '', '' (map fst (connectors m)))))
   \<and> (\<forall>err. resolve m arg = Inl err \<longrightarrow>
        (\<exists>msg. err = Error msg \<and> (\<forall>k \<in> fst ` set (connectors m). str_includes msg k)))"
proof (intro conjI impI allI)
  fix c assume "sid \<noteq> []" "map_of (connectors m) sid = Some c"
  then show "resolve m (Some sid) = Inr c"
    by (simp add: resolve_def truthy_def get_def orElse_def)
next
  assume "sid \<noteq> []" "sid \<notin> fst ` set (connectors m)"
  moreover from this have "map_of (connectors m) sid = None"
    by (simp add: map_of_eq_None_iff)
  ultimately show "resolve m (Some sid) =
           Inl (Error (''Unknown source: '' @ sid @ ''. Available sources: '' @
                       join '', '' (map fst (connectors m))))"
    by (simp add: resolve_def truthy_def get_def orElse_def listSourceIds_def)
next
  show "resolve m (Some []) = resolve m None"
    by (simp add: resolve_def truthy_def)
next
  show "(\<exists>c. resolve m None = Inr c) \<longleftrightarrow>
        (length (connectors m) = 1 \<or> ''default'' \<in> fst ` set (connectors m))"
    using map_of_default_iff [of "connectors m" "''default''"]
    by (auto simp add: resolve_def truthy_def getDefault_def split: option.splits)
next
  assume "length (connectors m) = 1"
  then show "resolve m None = Inr (snd (hd (connectors m)))"
    by (simp add: resolve_def truthy_def getDefault_def)
next
  fix c assume "length (connectors m) \<noteq> 1" "map_of (connectors m) ''default'' = Some c"
  then show "resolve m None = Inr c"
    by (simp add: resolve_def truthy_def getDefault_def)
next
  assume "length (connectors m) \<noteq> 1 \<and> ''default'' \<notin> fst ` set (connectors m)"
  moreover from this have "map_of (connectors m) ''default'' = None"
    by (simp add: map_of_eq_None_iff)
  ultimately show "resolve m None =
          Inl (Error (''Multiple sources configured. Please specify source_id. Available: '' @
                      join '', '' (map fst (connectors m))))"
    by (simp add: resolve_def truthy_def getDefault_def listSourceIds_def)
next
  fix err assume f: "resolve m arg = Inl err"
  let ?u = "''Unknown source: '' @ orElse arg [] @ ''. Available sources: ''"
  let ?d = "''Multiple sources configured. Please specify source_id. Available: ''"
  from f have "err = Error (?u @ join '', '' (map fst (connectors m))) \<or>
               err = Error (?d @ join '', '' (map fst (connectors m)))"
    by (auto simp add: resolve_def listSourceIds_def split: if_splits option.splits)
  then show "\<exists>msg. err = Error msg \<and> (\<forall>k \<in> fst ` set (connectors m). str_includes msg k)"
    using listed_in_message [of _ "connectors m" ?u] listed_in_message [of _ "connectors m" ?d]
    by blast
qed

theorem resolve_dispatch_witness:
  "resolve (exampleManager [''a'', ''b'']) (Some ''b'') =
     Inr (newConnector PostgresConnector (exampleConfig ''b'' ''postgres'') (exampleGlobal False 10))
   \<and> resolve (exampleManager [''a'', ''b'']) (Some ''c'') =
       Inl (Error ''Unknown source: c. Available sources: a, b'')
   \<and> resolve (exampleManager [''a'', ''b'']) None =
       Inl (Error ''Multiple sources configured. Please specify source_id. Available: a, b'')
   \<and> resolve (exampleManager [''a'']) None =
       Inr (newConnector PostgresConnector (exampleConfig ''a'' ''postgres'') (exampleGlobal False 10))
   \<and> resolve (exampleManager [''a'', ''default'']) None =
       Inr (newConnector PostgresConnector (exampleConfig ''default'' ''postgres'') (exampleGlobal False 10))
   \<and> str_includes ''Multiple sources configured. Please specify source_id. Available: a, b'' ''a''
   \<and> str_includes ''Multiple sources configured. Please specify source_id. Available: a, b'' ''b''"
proof -
  let ?two = "exampleManager [''a'', ''b'']"
  let ?msg = "''Multiple sources configured. Please specify source_id. Available: a, b''"
  have 1: "resolve ?two (Some ''b'') =
     Inr (newConnector PostgresConnector (exampleConfig ''b'' ''postgres'') (exampleGlobal False 10))"
    using resolve_dispatch [of "''b''" ?two None] by (simp add: exampleManager_def)
  have 2: "resolve ?two (Some ''c'') = Inl (Error ''Unknown source: c. Available sources: a, b'')"
    using resolve_dispatch [of "''c''" ?two None] by (simp add: exampleManager_def)
  have 3: "resolve ?two None = Inl (Error ?msg)"
    using resolve_dispatch [of "''c''" ?two None] by (simp add: exampleManager_def)
  have 4: "resolve (exampleManager [''a'']) None =
       Inr (newConnector PostgresConnector (exampleConfig ''a'' ''postgres'') (exampleGlobal False 10))"
    using resolve_dispatch [of "''c''" "exampleManager [''a'']" None] by (simp add: exampleManager_def)
  have 5: "resolve (exampleManager [''a'', ''default'']) None =
       Inr (newConnector PostgresConnector (exampleConfig ''default'' ''postgres'') (exampleGlobal False 10))"
    using resolve_dispatch [of "''c''" "exampleManager [''a'', ''default'']" None]
    by (simp add: exampleManager_def)
  have keys: "fst ` set (connectors ?two) = {''a'', ''b''}"
    by (simp add: exampleManager_def)
  have "\<forall>err. resolve ?two None = Inl err \<longrightarrow>
          (\<exists>msg. err = Error msg \<and> (\<forall>k \<in> fst ` set (connectors ?two). str_includes msg k))"
    using resolve_dispatch [of "''c''" ?two None] by blast
  with 3 have "\<forall>k \<in> fst ` set (connectors ?two). str_includes ?msg k" by auto
  with keys have 6: "str_includes ?msg ''a'' \<and> str_includes ?msg ''b''" by simp
  from 1 2 3 4 5 6 show ?thesis by (intro conjI) simp_all
qed

text \<open>
  The empty string is an identifier under which nothing is registered, yet \<open>resolve\<close>
  returns the single configured connector for it.
\<close>

theorem resolve_empty_identifier_falls_back:
  "map_of (connectors (exampleManager [''a''])) [] = None
   \<and> resolve (exampleManager [''a'']) (Some []) =
       Inr (newConnector PostgresConnector (exampleConfig ''a'' ''postgres'') (exampleGlobal False 10))"
  by (simp add: resolve_def truthy_def getDefault_def exampleManager_def)

section \<open>disconnect\<close>

text \<open>
  The Hive adapter resets its state in a \<open>finally\<close> block, whatever the close calls did;
  the pooled adapters do nothing when they hold no pool.
\<close>

lemma disconnect_hive_resets:
  "\<exists>w'. disconnect_hive drv c w =
     (Inr (), c\<lparr>client := None, session := None, kerberosAuth := None, isConnected := False\<rparr>, w')"
  by (simp add: disconnect_hive_def Let_def)

lemma disconnect_pool_idle:
  "pool c = None \<Longrightarrow> disconnect_pool drv c w = (Inr (), c, w)"
  by (simp add: disconnect_pool_def)

text \<open>
  Claim C8. A connected Postgres connector whose \<open>pool.end()\<close> throws: \<open>disconnect\<close>
  hands the failure to its caller, and the connector is still connected and still holds
  the pool. The MySQL, SQL Server and SQLite adapters share this code.
\<close>

theorem postgres_disconnect_close_failure:
  "disconnect (scriptedDriver True False True [])
     ((exampleConnector PostgresConnector False 10)\<lparr>isConnected := True, pool := Some 1\<rparr>) [] =
     (Inl (Error ''close failed''),
      (exampleConnector PostgresConnector False 10)\<lparr>isConnected := True, pool := Some 1\<rparr>,
      [''closePool''])"
  by (simp add: disconnect_def disconnect_pool_def scriptedDriver_def exampleConnector_def
        newConnector_def)

section \<open>KerberosAuth.destroy\<close>

lemma destroy_success_resets:
  "fst (spawnKdestroy drv w) = None \<Longrightarrow>
     \<not> initialized (fst (destroy drv k w)) \<and> ticketExpiry (fst (destroy drv k w)) = None \<and>
     \<not> isValid (fst (destroy drv k w)) now"
  by (cases "spawnKdestroy drv w") (auto simp add: destroy_def isValid_def Let_def)

text \<open>
  Claim C9. An initialized authenticator whose \<open>kdestroy\<close> fails: after \<open>destroy\<close> has
  returned it is still initialized and \<open>isValid\<close> is still true, with no timer left; a
  later \<open>initialize\<close> then finds it initialized and does nothing.
\<close>

theorem destroy_failure_stays_initialized:
  "initialized (fst (destroy (scriptedDriver True True False []) exampleAuth []))
   \<and> isValid (fst (destroy (scriptedDriver True True False []) exampleAuth [])) 0
   \<and> refreshTimer (fst (destroy (scriptedDriver True True False []) exampleAuth [])) = None
   \<and> fst (initialize (scriptedDriver True True False [])
            (fst (destroy (scriptedDriver True True False []) exampleAuth [])) [''kdestroy'']) = Inr ()
   \<and> snd (snd (initialize (scriptedDriver True True False [])
            (fst (destroy (scriptedDriver True True False []) exampleAuth [])) [''kdestroy''])) =
       [''kdestroy'']"
  by (simp add: destroy_def initialize_def scriptedDriver_def exampleAuth_def isValid_def)

section \<open>The tools connect on demand\<close>

lemma hiveConnectFailed_fails: "hiveConnectFailed drv c cause w \<noteq> (Inr u, c1, w1)"
  by (simp add: hiveConnectFailed_def split: option.splits prod.splits)

lemma connect_pool_connected:
  "connect_pool drv c w = (Inr u, c1, w1) \<Longrightarrow> isConnected c1"
  by (auto simp add: connect_pool_def Let_def split: if_splits prod.splits sum.splits option.splits)

lemma connect_sqlite_connected:
  "connect_sqlite drv c w = (Inr u, c1, w1) \<Longrightarrow> isConnected c1"
  by (auto simp add: connect_sqlite_def split: if_splits prod.splits sum.splits)

lemma connect_hive_connected:
  assumes "connect_hive drv c w = (Inr u, c1, w1)"
  shows "isConnected c1"
proof (cases "isConnected c")
  case True
  with assms show ?thesis by (simp add: connect_hive_def)
next
  case False
  obtain ok w0 where i: "importHiveDriver drv w = (ok, w0)" by (cases "importHiveDriver drv w")
  obtain r ck wk where k: "hiveKerberosInit drv c w0 = (r, ck, wk)"
    by (cases "hiveKerberosInit drv c w0") auto
  obtain h w2 where n: "newClient drv wk = (h, w2)" by (cases "newClient drv wk")
  obtain cr w3 where cc: "clientConnect drv h (config c) w2 = (cr, w3)"
    by (cases "clientConnect drv h (config c) w2")
  obtain sr w4 where os: "openSession drv h w3 = (sr, w4)" by (cases "openSession drv h w3")
  show ?thesis
    using assms False i k n cc os
    by (cases ok; cases r; cases cr; cases sr)
       (auto simp add: connect_hive_def Let_def hiveConnectFailed_fails)
qed

lemma connect_connected:
  "connect drv c w = (Inr u, c1, w1) \<Longrightarrow> isConnected c1"
  by (cases "variant c")
     (auto simp add: connect_def connect_pool_connected connect_sqlite_connected
        connect_hive_connected)


lemma connect_hive_session:
  assumes "connect_hive drv c w = (Inr u, c1, w1)" and "\<not> isConnected c"
  shows "session c1 \<noteq> None"
proof -
  obtain ok w0 where i: "importHiveDriver drv w = (ok, w0)" by (cases "importHiveDriver drv w")
  obtain r ck wk where k: "hiveKerberosInit drv c w0 = (r, ck, wk)"
    by (cases "hiveKerberosInit drv c w0") auto
  obtain h w2 where n: "newClient drv wk = (h, w2)" by (cases "newClient drv wk")
  obtain cr w3 where cc: "clientConnect drv h (config c) w2 = (cr, w3)"
    by (cases "clientConnect drv h (config c) w2")
  obtain sr w4 where os: "openSession drv h w3 = (sr, w4)" by (cases "openSession drv h w3")
  show ?thesis
    using assms i k n cc os
    by (cases ok; cases r; cases cr; cases sr)
       (auto simp add: connect_hive_def Let_def hiveConnectFailed_fails)
qed

lemma connect_owns_handle:
  assumes "connect drv c w = (Inr u, c1, w1)" and "\<not> isConnected c"
  shows "ownsHandle c1 \<and> variant c1 = variant c"
proof (cases "variant c")
  case HiveConnector
  with assms connect_hive_session [of drv c w u c1 w1] show ?thesis
    by (auto simp add: connect_def ownsHandle_def connect_hive_def Let_def hiveConnectFailed_def
          hiveKerberosInit_def
          split: prod.splits bool.splits sum.splits option.splits if_splits)
next
  case ImpalaConnector
  with assms connect_hive_session [of drv c w u c1 w1] show ?thesis
    by (auto simp add: connect_def ownsHandle_def connect_hive_def Let_def hiveConnectFailed_def
          hiveKerberosInit_def
          split: prod.splits bool.splits sum.splits option.splits if_splits)
qed (use assms in \<open>auto simp add: connect_def ownsHandle_def connect_pool_def connect_sqlite_def Let_def
       split: prod.splits sum.splits option.splits\<close>)

text \<open>
  Claim C10. When a tool invocation gets past its input check and resolves to a connector
  that is not connected, the tool runs \<open>connect\<close> first. If \<open>connect\<close> fails, its error is
  the tool's response and neither \<open>execute\<close> nor \<open>searchObjects\<close> is called. If it
  succeeds, the call is made on the connector as \<open>connect\<close> left it, which is connected and
  owns its handle, so \<open>execute\<close> passes the connectivity check: it either refuses a write
  in read-only mode or hands the statement to the adapter.
\<close>

theorem tools_connect_before_use:
  assumes "resolve m sid = Inr c" and "\<not> isConnected c"
    and "connect drv c w = (r, c1, w1)"
    and "source_id input = sid" and "so_source_id sinput = sid"
    and "\<not> (input_sql input = [] \<or> length (trim (input_sql input)) = 0)"
    and "\<not> (so_object_type sinput = Some ''column'' \<and> \<not> truthy (so_table sinput))"
  shows "(\<forall>e. r = Inl e \<longrightarrow>
            executeSql executeQuery fmtQ drv m input w = (errorResult e, Some c1, w1) \<and>
            searchObjects connectorSearch fmtS drv m sinput w = (errorResult e, Some c1, w1))
       \<and> (r = Inr () \<longrightarrow>
            isConnected c1 \<and> ownsHandle c1 \<and>
            execute executeQuery c1 (input_sql input)
              (Some \<lparr> eo_params = params input, eo_maxRows = None, eo_timeout = None \<rparr>) w1 =
              (if readonly (options c1) \<and> isWriteQuery (input_sql input)
               then (Inl (QueryError (sourceId c1) (input_sql input)
                            ''Write operations are not allowed in read-only mode''), w1)
               else executeQuery c1 (input_sql input) (params input) (maxRows (options c1))
                      (queryTimeout (options c1)) w1) \<and>
            executeSql executeQuery fmtQ drv m input w =
              (case execute executeQuery c1 (input_sql input)
                      (Some \<lparr> eo_params = params input, eo_maxRows = None, eo_timeout = None \<rparr>) w1 of
                 (Inl e, w2) \<Rightarrow> (errorResult e, Some c1, w2)
               | (Inr result, w2) \<Rightarrow>
                   (\<lparr> content_text = fmtQ result (orElse (response_format input) ''markdown''),
                      isError = False \<rparr>, Some c1, w2)) \<and>
            searchObjects connectorSearch fmtS drv m sinput w =
              (case connectorSearch c1
                      \<lparr> objectType = so_object_type sinput, schema = so_schema sinput,
                        table = so_table sinput, pattern = so_pattern sinput \<rparr> w1 of
                 (Inl e, w2) \<Rightarrow> (errorResult e, Some c1, w2)
               | (Inr objects, w2) \<Rightarrow>
                   (\<lparr> content_text = fmtS objects (orElse (so_response_format sinput) ''markdown''),
                      isError = False \<rparr>, Some c1, w2)))"
proof (intro conjI allI impI)
  fix e assume "r = Inl e"
  with assms show "executeSql executeQuery fmtQ drv m input w = (errorResult e, Some c1, w1)"
    by (simp add: executeSql_def)
  from assms \<open>r = Inl e\<close>
  show "searchObjects connectorSearch fmtS drv m sinput w = (errorResult e, Some c1, w1)"
    by (simp add: searchObjects_def)
next
  assume ok: "r = Inr ()"
  with assms(3) show conn: "isConnected c1" by (simp add: connect_connected)
  from ok assms(2,3) show "ownsHandle c1" by (simp add: connect_owns_handle)
  from conn show "execute executeQuery c1 (input_sql input)
              (Some \<lparr> eo_params = params input, eo_maxRows = None, eo_timeout = None \<rparr>) w1 =
              (if readonly (options c1) \<and> isWriteQuery (input_sql input)
               then (Inl (QueryError (sourceId c1) (input_sql input)
                            ''Write operations are not allowed in read-only mode''), w1)
               else executeQuery c1 (input_sql input) (params input) (maxRows (options c1))
                      (queryTimeout (options c1)) w1)"
    by (simp add: execute_def orElse_def orElseOpt_def)
  from assms ok
  show "executeSql executeQuery fmtQ drv m input w =
              (case execute executeQuery c1 (input_sql input)
                      (Some \<lparr> eo_params = params input, eo_maxRows = None, eo_timeout = None \<rparr>) w1 of
                 (Inl e, w2) \<Rightarrow> (errorResult e, Some c1, w2)
               | (Inr result, w2) \<Rightarrow>
                   (\<lparr> content_text = fmtQ result (orElse (response_format input) ''markdown''),
                      isError = False \<rparr>, Some c1, w2))"
    by (simp add: executeSql_def)
  from assms ok
  show "searchObjects connectorSearch fmtS drv m sinput w =
              (case connectorSearch c1
                      \<lparr> objectType = so_object_type sinput, schema = so_schema sinput,
                        table = so_table sinput, pattern = so_pattern sinput \<rparr> w1 of
                 (Inl e, w2) \<Rightarrow> (errorResult e, Some c1, w2)
               | (Inr objects, w2) \<Rightarrow>
                   (\<lparr> content_text = fmtS objects (orElse (so_response_format sinput) ''markdown''),
                      isError = False \<rparr>, Some c1, w2))"
    by (auto simp add: searchObjects_def)
qed

theorem tools_connect_before_use_witness:
  "executeSql (executeQuery_postgres (scriptedDriver True True True exampleRows)) countRows
     (scriptedDriver True True True exampleRows) (exampleManager [''a'']) exampleInput [] =
     (\<lparr> content_text = ''3 rows as markdown'', isError = False \<rparr>,
      Some ((exampleConnector PostgresConnector False 10)
              \<lparr>config := exampleConfig ''a'' ''postgres'', isConnected := True, pool := Some 1\<rparr>),
      [''newPool'', ''verifyPool'', ''select n from t LIMIT 11''])
   \<and> searchObjects noCatalog (\<lambda>objs fmt. concat objs)
       (scriptedDriver True True True exampleRows) (exampleManager [''a'']) exampleSearch [] =
     (\<lparr> content_text = [], isError = False \<rparr>,
      Some ((exampleConnector PostgresConnector False 10)
              \<lparr>config := exampleConfig ''a'' ''postgres'', isConnected := True, pool := Some 1\<rparr>),
      [''newPool'', ''verifyPool'', ''catalog query''])"
proof -
  let ?drv = "scriptedDriver True True True exampleRows"
  let ?c = "newConnector PostgresConnector (exampleConfig ''a'' ''postgres'') (exampleGlobal False 10)"
  let ?c1 = "?c\<lparr>pool := Some 1, isConnected := True\<rparr>"
  have r: "resolve (exampleManager [''a'']) None = Inr ?c"
    by (simp add: resolve_def truthy_def getDefault_def exampleManager_def)
  have d: "\<not> isConnected ?c" by (simp add: newConnector_def)
  have co: "connect ?drv ?c [] = (Inr (), ?c1, [''newPool'', ''verifyPool''])"
    by (simp add: connect_def connect_pool_def scriptedDriver_def newConnector_def Let_def)
  have s1: "source_id exampleInput = None" by (simp add: exampleInput_def)
  have s2: "so_source_id exampleSearch = None" by (simp add: exampleSearch_def)
  have nb: "\<not> (input_sql exampleInput = [] \<or> length (trim (input_sql exampleInput)) = 0)"
    by (simp add: exampleInput_def trim_def isWhiteSpace_def)
  have nc: "\<not> (so_object_type exampleSearch = Some ''column'' \<and> \<not> truthy (so_table exampleSearch))"
    by (simp add: exampleSearch_def)
  have nw: "\<not> isWriteQuery ''select n from t''" by (simp add: string_eval)
  have wl: "wrapWithLimit ''select n from t'' 11 = ''select n from t LIMIT 11''" by code_simp
  have n3: "numberToString (length exampleRows) = ''3''" by code_simp
  have q: "executeQuery_postgres ?drv ?c1 ''select n from t'' None 10 (Some DEFAULT_QUERY_TIMEOUT)
             [''newPool'', ''verifyPool''] =
           (Inr \<lparr> rows = exampleRows, truncated = False, columns = [''n''],
                   rowCount = length exampleRows \<rparr>,
            [''newPool'', ''verifyPool'', ''select n from t LIMIT 11''])"
    by (simp add: executeQuery_postgres_def wl scriptedDriver_def formatRows_def
          orElse_def Let_def) (simp add: exampleRows_def)
  have cfg: "?c1 = (exampleConnector PostgresConnector False 10)
              \<lparr>config := exampleConfig ''a'' ''postgres'', isConnected := True, pool := Some 1\<rparr>"
    by (simp add: exampleConnector_def newConnector_def exampleConfig_def)
  show ?thesis
    using tools_connect_before_use [OF r d co s1 s2 nb nc,
        of "executeQuery_postgres ?drv" countRows noCatalog "\<lambda>objs fmt. concat objs"]
      nw q n3 cfg
    by (simp add: exampleInput_def exampleSearch_def newConnector_def exampleGlobal_def
          orElse_def countRows_def noCatalog_def)
qed

end
